theory Spec2Isabelle
  imports Main "HOL-Library.Product_Lexorder" "HOL-Library.Sublist"
begin

unbundle bit_operations_syntax

section \<open>Networks, routes and dictionaries\<close>

text \<open>
  The module works on the networks of Python's \<^verbatim>\<open>ipaddress\<close> library. A network is
  its address family, the integer of its network address and its prefix length; the
  library's \<^verbatim>\<open>ip_network(p, strict=False)\<close> clears the host bits. A route keeps
  \<^verbatim>\<open>str(prefix)\<close> and the module reads it back with \<^verbatim>\<open>ip_network\<close>; the two are
  inverse to each other on networks, so the model keeps the network itself.
\<close>

datatype version = V4 | V6

record network =
  version :: version
  network_address :: nat
  prefixlen :: nat

fun max_prefixlen :: "version \<Rightarrow> nat" where
  "max_prefixlen V4 = 32"
| "max_prefixlen V6 = 128"

definition ip_network :: "version \<Rightarrow> nat \<Rightarrow> nat \<Rightarrow> network" where
  "ip_network v a l =
     \<lparr>version = v,
      network_address = (a div 2 ^ (max_prefixlen v - l)) * 2 ^ (max_prefixlen v - l),
      prefixlen = l\<rparr>"

definition broadcast_address :: "network \<Rightarrow> nat" where
  "broadcast_address n =
     network_address n OR (2 ^ (max_prefixlen (version n) - prefixlen n) - 1)"

text \<open>\<^verbatim>\<open>"{:032b}".format(n)\<close>: the binary digits of \<open>n\<close>, most significant first,
  on \<open>w\<close> places (an address of a family is below \<open>2 ^ w\<close>).\<close>

fun format_b :: "nat \<Rightarrow> nat \<Rightarrow> string" where
  "format_b 0 n = []"
| "format_b (Suc w) n =
     (if (n div 2 ^ w) mod 2 = 1 then CHR ''1'' else CHR ''0'') # format_b w n"

definition bits_in_prefix :: "network \<Rightarrow> string" where
  "bits_in_prefix p =
     take (prefixlen p) (format_b (max_prefixlen (version p)) (network_address p))"

text \<open>\<^verbatim>\<open>zip_longest\<close> pads the shorter string with \<^verbatim>\<open>None\<close>, which differs from
  every character: the loop returns at the end of the shorter string.\<close>

fun bits_in_common :: "string \<Rightarrow> string \<Rightarrow> string" where
  "bits_in_common (x # xs) (y # ys) = (if x \<noteq> y then [] else x # bits_in_common xs ys)"
| "bits_in_common _ _ = []"

definition int_prefix_boundaries :: "network \<Rightarrow> nat \<times> nat" where
  "int_prefix_boundaries p = (network_address p, broadcast_address p)"

text \<open>The address and the wildcard mask are given as the integers \<^verbatim>\<open>ip_address\<close>
  reads them as.\<close>

definition int_wildcard_boundaries :: "nat \<Rightarrow> nat \<Rightarrow> nat \<times> nat" where
  "int_wildcard_boundaries address wildcard = (address, address OR wildcard)"

text \<open>The keyword attributes. The names of the model are the names a caller is free to
  choose. A name that begins with an underscore may be a member of a \<^verbatim>\<open>Route\<close> object
  (\<^verbatim>\<open>_prefix\<close>, which \<^verbatim>\<open>__init__\<close> would overwrite, \<^verbatim>\<open>__dict__\<close>, \<^verbatim>\<open>__doc__\<close> and the
  like), \<^verbatim>\<open>prefix\<close> is its property, and the name of a parameter of a method cannot be
  given among the \<^verbatim>\<open>**attrs\<close> of that method: these names are left out of the type. The
  values are strings.\<close>

typedef name = "{s :: string. s \<noteq> [] \<and> hd s \<noteq> CHR ''_'' \<and>
    s \<notin> {''prefix'', ''self'', ''as_root'', ''address'', ''wildcard''}}"
  by (rule exI[of _ "''via''"]) simp

setup_lifting type_definition_name

lift_definition via :: name is "''via''"
  by simp

type_synonym kwargs = "(name \<times> string) list"

text \<open>\<^verbatim>\<open>Route(str(prefix), **attrs)\<close>: the \<^verbatim>\<open>__dict__\<close> of the object is \<^verbatim>\<open>_prefix\<close> and the
  attributes, in the order of the call.\<close>

record route =
  prefix :: network
  attrs :: kwargs

text \<open>Python compares two dictionaries by their key sets and values, whatever the
  order of insertion.\<close>

definition dict_eq :: "kwargs \<Rightarrow> kwargs \<Rightarrow> bool" where
  "dict_eq a b = list_all (\<lambda>k. map_of a k = map_of b k) (map fst a @ map fst b)"

definition route_eq :: "route \<Rightarrow> route \<Rightarrow> bool" where
  "route_eq r s = (prefix r = prefix s \<and> dict_eq (attrs r) (attrs s))"

text \<open>\<^verbatim>\<open>getattr(obj, attr)\<close> of such a name reads the \<^verbatim>\<open>__dict__\<close> of the object; where the
  name is missing it raises \<open>AttributeError\<close>, and \<^verbatim>\<open>has_all_attrs\<close> answers \<^verbatim>\<open>False\<close>.\<close>

definition has_all_attrs :: "route \<Rightarrow> kwargs \<Rightarrow> bool" where
  "has_all_attrs obj as = list_all (\<lambda>(attr, val). map_of (attrs obj) attr = Some val) as"

definition objs_with_all_attrs :: "route list \<Rightarrow> kwargs \<Rightarrow> route list" where
  "objs_with_all_attrs objs as = filter (\<lambda>obj. has_all_attrs obj as) objs"

text \<open>\<^verbatim>\<open>route in routes\<close> and \<^verbatim>\<open>routes.remove(route)\<close> go by \<^verbatim>\<open>Route.__eq__\<close>.\<close>

definition route_in :: "route \<Rightarrow> route list \<Rightarrow> bool" where
  "route_in r rs = list_ex (route_eq r) rs"

fun list_remove :: "route \<Rightarrow> route list \<Rightarrow> route list" where
  "list_remove r [] = []"
| "list_remove r (x # xs) = (if route_eq x r then xs else x # list_remove r xs)"

text \<open>A node is a Python dictionary in insertion order. Its key \<^verbatim>\<open>"*"\<close> holds the
  list of routes of the node, every other key a child. The values are not typed in
  Python, and one path of the radix tree stores a list under a key that is not
  \<^verbatim>\<open>"*"\<close>, so the model keeps both kinds of value under any key.\<close>

datatype tree = Routes "route list" | Dict "(string \<times> tree) list"

type_synonym items = "(string \<times> tree) list"

datatype error = RoutingTableValidationError | TypeError | AttributeError | UnboundLocalError

abbreviation star :: string where
  "star \<equiv> ''*''"

text \<open>\<^verbatim>\<open>d[k] = v\<close> keeps the place of a key that is there and appends a new one;
  \<^verbatim>\<open>del d[k]\<close>; \<^verbatim>\<open>d.popitem()\<close> takes the last item.\<close>

fun dict_set :: "items \<Rightarrow> string \<Rightarrow> tree \<Rightarrow> items" where
  "dict_set [] k v = [(k, v)]"
| "dict_set ((k', v') # d) k v = (if k' = k then (k, v) # d else (k', v') # dict_set d k v)"

definition dict_del :: "items \<Rightarrow> string \<Rightarrow> items" where
  "dict_del d k = filter (\<lambda>(k', v). k' \<noteq> k) d"

definition new_dict_without_key :: "string \<Rightarrow> items \<Rightarrow> items" where
  "new_dict_without_key unwanted_key dct = filter (\<lambda>(key, val). key \<noteq> unwanted_key) dct"

text \<open>The children of a node in the order \<^verbatim>\<open>popitem\<close> hands them out, last
  inserted first.\<close>

definition popitems :: "items \<Rightarrow> items" where
  "popitems pointer = rev (new_dict_without_key star pointer)"

lemma size_list_rev: "size_list f (rev xs) = size_list f xs"
  by (induction xs) auto

lemma size_popitems:
  "size_list (size_prod (\<lambda>_. 0) size) (popitems c) \<le> size_list (size_prod (\<lambda>_. 0) size) c"
  unfolding popitems_def new_dict_without_key_def
  by (induction c) auto

text \<open>\<^verbatim>\<open>pointer.get("*", default)\<close>. No operation stores a dictionary under
  \<^verbatim>\<open>"*"\<close>; where a tree has one and the value is used as a list of routes, the model
  answers \<open>TypeError\<close>.\<close>

definition getstar :: "items \<Rightarrow> route list \<Rightarrow> error + route list" where
  "getstar pointer dflt =
     (case map_of pointer star of
        None \<Rightarrow> Inr dflt
      | Some (Routes routes) \<Rightarrow> Inr routes
      | Some (Dict _) \<Rightarrow> Inl TypeError)"

text \<open>The table: \<^verbatim>\<open>self._root\<close> and \<^verbatim>\<open>self._counter\<close>.\<close>

record table =
  root :: items
  counter :: int

definition init :: table where
  "init = \<lparr>root = [], counter = 0\<rparr>"

section \<open>Traversal and sorting, shared by both trees\<close>

text \<open>\<^verbatim>\<open>_traverse\<close>: the stack \<^verbatim>\<open>nodes\<close> with its top first. \<^verbatim>\<open>children.items()\<close>
  fails with \<open>AttributeError\<close> on a list.\<close>

function traverse_loop :: "items \<Rightarrow> kwargs \<Rightarrow> error + route list" where
  "traverse_loop [] as = Inr []"
| "traverse_loop ((node_bits, children) # nodes) as =
     (if node_bits = star then
        (case children of
           Dict _ \<Rightarrow> Inl AttributeError
         | Routes routes \<Rightarrow>
             (case traverse_loop nodes as of
                Inl e \<Rightarrow> Inl e
              | Inr rest \<Rightarrow> Inr (objs_with_all_attrs routes as @ rest)))
      else
        (case children of
           Routes _ \<Rightarrow> Inl AttributeError
         | Dict c \<Rightarrow> traverse_loop (rev c @ nodes) as))"
  by pat_completeness auto
termination
  by (relation "measure (\<lambda>(nodes, _). size_list (size_prod (\<lambda>_. 0) size) nodes)")
     (auto simp: size_list_rev)

definition traverse :: "items \<Rightarrow> kwargs \<Rightarrow> error + route list" where
  "traverse rt as = traverse_loop (rev rt) as"

text \<open>\<^verbatim>\<open>_sort\<close>: \<^verbatim>\<open>sorted\<close> is stable and compares the keys \<^verbatim>\<open>ip_network(route.prefix)\<close>
  with \<^verbatim>\<open><\<close>. The library's \<^verbatim>\<open>__lt__\<close> raises \<open>TypeError\<close> for two networks of
  different families and otherwise compares the network address, then the netmask,
  which grows with the prefix length. A sort that compares every element with another
  one meets two families as soon as the list holds both.\<close>

definition sort_key_of :: "route \<Rightarrow> nat \<times> nat" where
  "sort_key_of r = (network_address (prefix r), prefixlen (prefix r))"

fun mixed_versions :: "route list \<Rightarrow> bool" where
  "mixed_versions [] = False"
| "mixed_versions (r # rs) =
     list_ex (\<lambda>s. version (prefix s) \<noteq> version (prefix r)) rs"

definition sort_routes :: "route list \<Rightarrow> error + route list" where
  "sort_routes routes =
     (if mixed_versions routes then Inl TypeError else Inr (sort_key sort_key_of routes))"

definition sorted_traverse :: "items \<Rightarrow> kwargs \<Rightarrow> error + route list" where
  "sorted_traverse pointer as =
     (case traverse pointer as of Inl e \<Rightarrow> Inl e | Inr routes \<Rightarrow> sort_routes routes)"

text \<open>\<^verbatim>\<open>wcmatch\<close> is the same text in both classes.\<close>

definition wc_test :: "nat \<times> nat \<Rightarrow> route \<Rightarrow> bool" where
  "wc_test wc r =
     (case wc of (wc_start, wc_end) \<Rightarrow>
        (case int_prefix_boundaries (prefix r) of (network_id, bc_address) \<Rightarrow>
           (network_id AND wc_end) = network_id \<and> (wc_start AND bc_address) = wc_start))"

definition wcmatch :: "table \<Rightarrow> nat \<Rightarrow> nat \<Rightarrow> kwargs \<Rightarrow> error + route list" where
  "wcmatch t address wildcard as =
     (case traverse (root t) as of
        Inl e \<Rightarrow> Inl e
      | Inr routes \<Rightarrow>
          sort_routes (filter (wc_test (int_wildcard_boundaries address wildcard)) routes))"

text \<open>The end of both \<^verbatim>\<open>add\<close> methods: \<^verbatim>\<open>pointer.setdefault("*", [])\<close>, then the
  route is appended unless an equal one is there. The flag says whether the counter
  goes up. \<^verbatim>\<open>route not in routes\<close> on a dictionary fails: a \<^verbatim>\<open>Route\<close> has no hash.\<close>

definition bucket_add :: "items \<Rightarrow> route \<Rightarrow> error + (items \<times> bool)" where
  "bucket_add pointer r =
     (case map_of pointer star of
        None \<Rightarrow> Inr (pointer @ [(star, Routes [r])], True)
      | Some (Routes routes) \<Rightarrow>
          if route_in r routes then Inr (pointer, False)
          else Inr (dict_set pointer star (Routes (routes @ [r])), True)
      | Some (Dict _) \<Rightarrow> Inl TypeError)"

text \<open>The loop of both \<^verbatim>\<open>delete\<close> methods over \<^verbatim>\<open>routes.copy()\<close>: the routes left
  and the number removed.\<close>

fun remove_loop :: "route list \<Rightarrow> route list \<Rightarrow> kwargs \<Rightarrow> route list \<times> nat" where
  "remove_loop [] routes as = (routes, 0)"
| "remove_loop (r # copy) routes as =
     (if has_all_attrs r as
      then (case remove_loop copy (list_remove r routes) as of (rs, n) \<Rightarrow> (rs, Suc n))
      else remove_loop copy routes as)"

text \<open>What \<^verbatim>\<open>delete\<close> does at the node of the prefix, up to the pruning: the node
  after it, the number of routes removed and whether the node is to be pruned
  (\<^verbatim>\<open>not attrs or not routes\<close>). A missing \<^verbatim>\<open>"*"\<close> is the \<open>KeyError\<close> that
  \<^verbatim>\<open>sanitize\<close> turns into \<open>RoutingTableValidationError\<close>.\<close>

definition bucket_delete ::
  "items \<Rightarrow> kwargs \<Rightarrow> error + (items \<times> nat \<times> bool)" where
  "bucket_delete pointer as =
     (case map_of pointer star of
        None \<Rightarrow> Inl RoutingTableValidationError
      | Some (Dict _) \<Rightarrow> Inl TypeError
      | Some (Routes routes) \<Rightarrow>
          if as \<noteq> [] then
            (case remove_loop routes routes as of (routes', n) \<Rightarrow>
               if n = 0 then Inl RoutingTableValidationError
               else if routes' = [] then Inr (dict_set pointer star (Routes []), n, True)
               else Inr (dict_set pointer star (Routes routes'), n, False))
          else Inr (pointer, length routes, True))"


section \<open>IPPrefixTree\<close>

text \<open>The keys of a prefix tree are the single bits of the prefix. \<^verbatim>\<open>sanitize\<close> turns
  every \<open>KeyError\<close> of a decorated method into \<open>RoutingTableValidationError\<close>;
  the model writes that error where the key is looked up. A list under a bit key is
  stored by no operation; the model answers \<open>AttributeError\<close> where a method of a
  dictionary is then called on it.\<close>

fun pt_add_loop :: "items \<Rightarrow> string \<Rightarrow> route \<Rightarrow> error + (items \<times> bool)" where
  "pt_add_loop pointer [] r = bucket_add pointer r"
| "pt_add_loop pointer (b # bits) r =
     (case map_of pointer [b] of
        None \<Rightarrow>
          (case pt_add_loop [] bits r of
             Inl e \<Rightarrow> Inl e
           | Inr (c, inc) \<Rightarrow> Inr (pointer @ [([b], Dict c)], inc))
      | Some (Routes _) \<Rightarrow> Inl AttributeError
      | Some (Dict c) \<Rightarrow>
          (case pt_add_loop c bits r of
             Inl e \<Rightarrow> Inl e
           | Inr (c', inc) \<Rightarrow> Inr (dict_set pointer [b] (Dict c'), inc)))"

definition IPPrefixTree_add :: "table \<Rightarrow> network \<Rightarrow> kwargs \<Rightarrow> error + table" where
  "IPPrefixTree_add t p as =
     (case pt_add_loop (root t) (bits_in_prefix p) \<lparr>prefix = p, attrs = as\<rparr> of
        Inl e \<Rightarrow> Inl e
      | Inr (rt, inc) \<Rightarrow> Inr \<lparr>root = rt, counter = (if inc then counter t + 1 else counter t)\<rparr>)"

fun pt_get_loop :: "items \<Rightarrow> string \<Rightarrow> route list \<Rightarrow> error + route list" where
  "pt_get_loop pointer [] routes = Inr routes"
| "pt_get_loop pointer (b # bits) routes =
     (case map_of pointer [b] of
        None \<Rightarrow> Inr routes
      | Some (Routes _) \<Rightarrow> Inl AttributeError
      | Some (Dict c) \<Rightarrow>
          (case getstar c routes of
             Inl e \<Rightarrow> Inl e
           | Inr routes' \<Rightarrow> pt_get_loop c bits routes'))"

definition IPPrefixTree_get ::
  "table \<Rightarrow> network \<Rightarrow> kwargs \<Rightarrow> error + route list" where
  "IPPrefixTree_get t p as =
     (case getstar (root t) [] of
        Inl e \<Rightarrow> Inl e
      | Inr routes \<Rightarrow>
          (case pt_get_loop (root t) (bits_in_prefix p) routes of
             Inl e \<Rightarrow> Inl e
           | Inr routes' \<Rightarrow> Inr (objs_with_all_attrs routes' as)))"

text \<open>The walk of \<^verbatim>\<open>show\<close>: \<open>None\<close> where a bit is missing (\<^verbatim>\<open>return []\<close>).\<close>

fun pt_show_loop :: "items \<Rightarrow> string \<Rightarrow> error + items option" where
  "pt_show_loop pointer [] = Inr (Some pointer)"
| "pt_show_loop pointer (b # bits) =
     (case map_of pointer [b] of
        None \<Rightarrow> Inr None
      | Some (Routes _) \<Rightarrow> Inl AttributeError
      | Some (Dict c) \<Rightarrow> pt_show_loop c bits)"

definition IPPrefixTree_show ::
  "table \<Rightarrow> network option \<Rightarrow> bool \<Rightarrow> kwargs \<Rightarrow> error + route list" where
  "IPPrefixTree_show t p as_root as =
     (case p of
        None \<Rightarrow> if as_root then Inl TypeError else sorted_traverse (root t) as
      | Some q \<Rightarrow>
          (case pt_show_loop (root t) (bits_in_prefix q) of
             Inl e \<Rightarrow> Inl e
           | Inr None \<Rightarrow> Inr []
           | Inr (Some pointer) \<Rightarrow>
               if \<not> as_root then
                 (case getstar pointer [] of
                    Inl e \<Rightarrow> Inl e
                  | Inr routes \<Rightarrow> Inr (objs_with_all_attrs routes as))
               else sorted_traverse pointer as))"

fun pt_parent_loop :: "items \<Rightarrow> string \<Rightarrow> route list \<Rightarrow> error + route list" where
  "pt_parent_loop pointer [] routes =
     (if map_of pointer star = None then Inl RoutingTableValidationError else Inr routes)"
| "pt_parent_loop pointer (b # bits) routes =
     (case getstar pointer routes of
        Inl e \<Rightarrow> Inl e
      | Inr routes' \<Rightarrow>
          (case map_of pointer [b] of
             None \<Rightarrow> Inl RoutingTableValidationError
           | Some (Routes _) \<Rightarrow> Inl AttributeError
           | Some (Dict c) \<Rightarrow> pt_parent_loop c bits routes'))"

definition IPPrefixTree_parent ::
  "table \<Rightarrow> network \<Rightarrow> kwargs \<Rightarrow> error + route list" where
  "IPPrefixTree_parent t p as =
     (case pt_parent_loop (root t) (bits_in_prefix p) [] of
        Inl e \<Rightarrow> Inl e
      | Inr routes \<Rightarrow> Inr (objs_with_all_attrs routes as))"

text \<open>The walk of \<^verbatim>\<open>children\<close>, which fails on a missing bit.\<close>

fun pt_walk :: "items \<Rightarrow> string \<Rightarrow> error + items" where
  "pt_walk pointer [] = Inr pointer"
| "pt_walk pointer (b # bits) =
     (case map_of pointer [b] of
        None \<Rightarrow> Inl RoutingTableValidationError
      | Some (Routes _) \<Rightarrow> Inl AttributeError
      | Some (Dict c) \<Rightarrow> pt_walk c bits)"

definition IPPrefixTree_children ::
  "table \<Rightarrow> network \<Rightarrow> kwargs \<Rightarrow> error + route list" where
  "IPPrefixTree_children t p as =
     (case pt_walk (root t) (bits_in_prefix p) of
        Inl e \<Rightarrow> Inl e
      | Inr pointer \<Rightarrow>
          if map_of pointer star = None then Inl RoutingTableValidationError
          else sorted_traverse (new_dict_without_key star pointer) as)"

text \<open>\<^verbatim>\<open>pointer.get("*")\<close> in \<^verbatim>\<open>match\<close>: \<open>None\<close> when there is no such key.\<close>

definition getstar_opt :: "items \<Rightarrow> error + route list option" where
  "getstar_opt pointer =
     (case map_of pointer star of
        None \<Rightarrow> Inr None
      | Some (Routes routes) \<Rightarrow> Inr (Some routes)
      | Some (Dict _) \<Rightarrow> Inl TypeError)"

fun pt_match_loop :: "items \<Rightarrow> string \<Rightarrow> route list \<Rightarrow> error + route list" where
  "pt_match_loop pointer [] matches = Inr matches"
| "pt_match_loop pointer (b # bits) matches =
     (case map_of pointer [b] of
        None \<Rightarrow> Inr matches
      | Some (Routes _) \<Rightarrow> Inl AttributeError
      | Some (Dict c) \<Rightarrow>
          (case getstar_opt c of
             Inl e \<Rightarrow> Inl e
           | Inr None \<Rightarrow> pt_match_loop c bits matches
           | Inr (Some routes) \<Rightarrow> pt_match_loop c bits (matches @ routes)))"

definition IPPrefixTree_match ::
  "table \<Rightarrow> network \<Rightarrow> kwargs \<Rightarrow> error + route list" where
  "IPPrefixTree_match t p as =
     (case getstar (root t) [] of
        Inl e \<Rightarrow> Inl e
      | Inr routes \<Rightarrow>
          (case pt_match_loop (root t) (bits_in_prefix p) routes of
             Inl e \<Rightarrow> Inl e
           | Inr matches \<Rightarrow> sort_routes (objs_with_all_attrs matches as)))"

text \<open>\<^verbatim>\<open>delete\<close> walks down remembering the last node with more than one key
  (\<^verbatim>\<open>parent_prefix_node\<close>) and the bit taken there. The model walks down by recursion
  and hands the outcome back up: either the node as it is after the deletion, or the
  request to cut the branch at the nearest node above that has more than one key.\<close>

datatype outcome = Done items nat | Trim nat

fun pt_delete_loop :: "items \<Rightarrow> string \<Rightarrow> kwargs \<Rightarrow> error + outcome" where
  "pt_delete_loop pointer [] as =
     (case bucket_delete pointer as of
        Inl e \<Rightarrow> Inl e
      | Inr (pointer', n, prune) \<Rightarrow>
          if \<not> prune then Inr (Done pointer' n)
          else if length pointer > 1 then Inr (Done (dict_del pointer star) n)
          else Inr (Trim n))"
| "pt_delete_loop pointer (b # bits) as =
     (case map_of pointer [b] of
        None \<Rightarrow> Inl RoutingTableValidationError
      | Some (Routes _) \<Rightarrow> Inl AttributeError
      | Some (Dict c) \<Rightarrow>
          (case pt_delete_loop c bits as of
             Inl e \<Rightarrow> Inl e
           | Inr (Done c' n) \<Rightarrow> Inr (Done (dict_set pointer [b] (Dict c')) n)
           | Inr (Trim n) \<Rightarrow>
               if length pointer > 1 then Inr (Done (dict_del pointer [b]) n)
               else Inr (Trim n)))"

text \<open>With no node to cut at, \<^verbatim>\<open>delete\<close> calls \<^verbatim>\<open>self.flush()\<close>, which clears the
  root and sets the counter to 0.\<close>

definition IPPrefixTree_delete ::
  "table \<Rightarrow> network \<Rightarrow> kwargs \<Rightarrow> error + table" where
  "IPPrefixTree_delete t p as =
     (case pt_delete_loop (root t) (bits_in_prefix p) as of
        Inl e \<Rightarrow> Inl e
      | Inr (Done rt n) \<Rightarrow> Inr \<lparr>root = rt, counter = counter t - int n\<rparr>
      | Inr (Trim n) \<Rightarrow> Inr \<lparr>root = [], counter = 0\<rparr>)"


section \<open>IPRadixTree\<close>

text \<open>Every walk of the radix tree is the loop
  \<^verbatim>\<open>while nodes and prefix_bits: node_bits, children = nodes.popitem(); ...\<close>
  over a copy \<^verbatim>\<open>nodes\<close> of the children of \<^verbatim>\<open>pointer\<close>. The model keeps \<^verbatim>\<open>nodes\<close>
  in the order \<^verbatim>\<open>popitem\<close> empties it. \<^verbatim>\<open>new_dict_without_key("*", children)\<close>
  fails with \<open>AttributeError\<close> when \<^verbatim>\<open>children\<close> is a list.\<close>

text \<open>The end of \<^verbatim>\<open>add\<close>, after the loop.\<close>

definition rt_add_end :: "items \<Rightarrow> string \<Rightarrow> route \<Rightarrow> error + (items \<times> bool)" where
  "rt_add_end pointer prefix_bits r =
     (if prefix_bits \<noteq> [] then
        (case bucket_add [] r of
           Inl e \<Rightarrow> Inl e
         | Inr (leaf, inc) \<Rightarrow> Inr (dict_set pointer prefix_bits (Dict leaf), inc))
      else bucket_add pointer r)"

function rt_add_loop :: "items \<Rightarrow> items \<Rightarrow> string \<Rightarrow> route \<Rightarrow> error + (items \<times> bool)" where
  "rt_add_loop pointer [] prefix_bits r = rt_add_end pointer prefix_bits r"
| "rt_add_loop pointer ((node_bits, children) # nodes) prefix_bits r =
     (if prefix_bits = [] then rt_add_end pointer prefix_bits r
      else if bits_in_common node_bits prefix_bits = [] then
        rt_add_loop pointer nodes prefix_bits r
      else if bits_in_common node_bits prefix_bits = node_bits then
        (case children of
           Routes _ \<Rightarrow> Inl AttributeError
         | Dict c \<Rightarrow>
             (case rt_add_loop c (popitems c) (drop (length node_bits) prefix_bits) r of
                Inl e \<Rightarrow> Inl e
              | Inr (c', inc) \<Rightarrow> Inr (dict_set pointer node_bits (Dict c'), inc)))
      else
        (case rt_add_end
                [(drop (length (bits_in_common node_bits prefix_bits)) node_bits, children)]
                (drop (length (bits_in_common node_bits prefix_bits)) prefix_bits) r of
           Inl e \<Rightarrow> Inl e
         | Inr (new, inc) \<Rightarrow>
             Inr (dict_set (dict_del pointer node_bits)
                    (bits_in_common node_bits prefix_bits) (Dict new), inc)))"
  by pat_completeness auto
termination
  by (relation "measure (\<lambda>(_, nodes, _, _). size_list (size_prod (\<lambda>_. 0) size) nodes)")
     (auto intro!: le_imp_less_Suc le_SucI trans_le_add1 size_popitems)

definition IPRadixTree_add :: "table \<Rightarrow> network \<Rightarrow> kwargs \<Rightarrow> error + table" where
  "IPRadixTree_add t p as =
     (case rt_add_loop (root t) (popitems (root t)) (bits_in_prefix p) \<lparr>prefix = p, attrs = as\<rparr> of
        Inl e \<Rightarrow> Inl e
      | Inr (rt, inc) \<Rightarrow> Inr \<lparr>root = rt, counter = (if inc then counter t + 1 else counter t)\<rparr>)"

function rt_get_loop :: "items \<Rightarrow> string \<Rightarrow> route list \<Rightarrow> error + route list" where
  "rt_get_loop [] prefix_bits routes = Inr routes"
| "rt_get_loop ((node_bits, children) # nodes) prefix_bits routes =
     (if prefix_bits = [] then Inr routes
      else if bits_in_common node_bits prefix_bits = node_bits then
        (case children of
           Routes _ \<Rightarrow> Inl AttributeError
         | Dict c \<Rightarrow>
             (case getstar c routes of
                Inl e \<Rightarrow> Inl e
              | Inr routes' \<Rightarrow>
                  rt_get_loop (popitems c) (drop (length node_bits) prefix_bits) routes'))
      else rt_get_loop nodes prefix_bits routes)"
  by pat_completeness auto
termination
  by (relation "measure (\<lambda>(nodes, _, _). size_list (size_prod (\<lambda>_. 0) size) nodes)")
     (auto intro!: le_imp_less_Suc le_SucI trans_le_add1 size_popitems)

definition IPRadixTree_get ::
  "table \<Rightarrow> network \<Rightarrow> kwargs \<Rightarrow> error + route list" where
  "IPRadixTree_get t p as =
     (case getstar (root t) [] of
        Inl e \<Rightarrow> Inl e
      | Inr routes \<Rightarrow>
          (case rt_get_loop (popitems (root t)) (bits_in_prefix p) routes of
             Inl e \<Rightarrow> Inl e
           | Inr routes' \<Rightarrow> Inr (objs_with_all_attrs routes' as)))"

text \<open>The walk of \<^verbatim>\<open>show\<close> shortens \<^verbatim>\<open>prefix_bits\<close> by any common bits, also
  when they are not the whole key, and goes on with the keys left in \<^verbatim>\<open>nodes\<close>. It
  returns the node reached and the bits left.\<close>

function rt_show_loop :: "items \<Rightarrow> items \<Rightarrow> string \<Rightarrow> error + (items \<times> string)" where
  "rt_show_loop pointer [] prefix_bits = Inr (pointer, prefix_bits)"
| "rt_show_loop pointer ((node_bits, children) # nodes) prefix_bits =
     (if prefix_bits = [] then Inr (pointer, prefix_bits)
      else if bits_in_common node_bits prefix_bits = [] then
        rt_show_loop pointer nodes prefix_bits
      else if bits_in_common node_bits prefix_bits = node_bits then
        (case children of
           Routes _ \<Rightarrow> Inl AttributeError
         | Dict c \<Rightarrow> rt_show_loop c (popitems c) (drop (length node_bits) prefix_bits))
      else
        rt_show_loop pointer nodes
          (drop (length (bits_in_common node_bits prefix_bits)) prefix_bits))"
  by pat_completeness auto
termination
  by (relation "measure (\<lambda>(_, nodes, _). size_list (size_prod (\<lambda>_. 0) size) nodes)")
     (auto intro!: le_imp_less_Suc le_SucI trans_le_add1 size_popitems)

definition IPRadixTree_show ::
  "table \<Rightarrow> network option \<Rightarrow> bool \<Rightarrow> kwargs \<Rightarrow> error + route list" where
  "IPRadixTree_show t p as_root as =
     (case p of
        None \<Rightarrow> if as_root then Inl TypeError else sorted_traverse (root t) as
      | Some q \<Rightarrow>
          (case rt_show_loop (root t) (popitems (root t)) (bits_in_prefix q) of
             Inl e \<Rightarrow> Inl e
           | Inr (pointer, prefix_bits) \<Rightarrow>
               if prefix_bits \<noteq> [] then Inr []
               else if \<not> as_root then
                 (case getstar pointer [] of
                    Inl e \<Rightarrow> Inl e
                  | Inr routes \<Rightarrow> Inr (objs_with_all_attrs routes as))
               else sorted_traverse pointer as))"

function rt_parent_loop :: "items \<Rightarrow> items \<Rightarrow> string \<Rightarrow> route list \<Rightarrow> error + route list" where
  "rt_parent_loop pointer [] prefix_bits routes =
     (if prefix_bits \<noteq> [] \<or> map_of pointer star = None
      then Inl RoutingTableValidationError else Inr routes)"
| "rt_parent_loop pointer ((node_bits, children) # nodes) prefix_bits routes =
     (if prefix_bits = [] then
        (if map_of pointer star = None then Inl RoutingTableValidationError else Inr routes)
      else if bits_in_common node_bits prefix_bits = node_bits then
        (case getstar pointer routes of
           Inl e \<Rightarrow> Inl e
         | Inr routes' \<Rightarrow>
             (case children of
                Routes _ \<Rightarrow> Inl AttributeError
              | Dict c \<Rightarrow>
                  rt_parent_loop c (popitems c) (drop (length node_bits) prefix_bits) routes'))
      else rt_parent_loop pointer nodes prefix_bits routes)"
  by pat_completeness auto
termination
  by (relation "measure (\<lambda>(_, nodes, _, _). size_list (size_prod (\<lambda>_. 0) size) nodes)")
     (auto intro!: le_imp_less_Suc le_SucI trans_le_add1 size_popitems)

definition IPRadixTree_parent ::
  "table \<Rightarrow> network \<Rightarrow> kwargs \<Rightarrow> error + route list" where
  "IPRadixTree_parent t p as =
     (case rt_parent_loop (root t) (popitems (root t)) (bits_in_prefix p) [] of
        Inl e \<Rightarrow> Inl e
      | Inr routes \<Rightarrow> Inr (objs_with_all_attrs routes as))"

text \<open>The walk of \<^verbatim>\<open>children\<close>: the node reached and the bits left.\<close>

function rt_walk :: "items \<Rightarrow> items \<Rightarrow> string \<Rightarrow> error + (items \<times> string)" where
  "rt_walk pointer [] prefix_bits = Inr (pointer, prefix_bits)"
| "rt_walk pointer ((node_bits, children) # nodes) prefix_bits =
     (if prefix_bits = [] then Inr (pointer, prefix_bits)
      else if bits_in_common node_bits prefix_bits = node_bits then
        (case children of
           Routes _ \<Rightarrow> Inl AttributeError
         | Dict c \<Rightarrow> rt_walk c (popitems c) (drop (length node_bits) prefix_bits))
      else rt_walk pointer nodes prefix_bits)"
  by pat_completeness auto
termination
  by (relation "measure (\<lambda>(_, nodes, _). size_list (size_prod (\<lambda>_. 0) size) nodes)")
     (auto intro!: le_imp_less_Suc le_SucI trans_le_add1 size_popitems)

definition IPRadixTree_children ::
  "table \<Rightarrow> network \<Rightarrow> kwargs \<Rightarrow> error + route list" where
  "IPRadixTree_children t p as =
     (case rt_walk (root t) (popitems (root t)) (bits_in_prefix p) of
        Inl e \<Rightarrow> Inl e
      | Inr (pointer, prefix_bits) \<Rightarrow>
          if prefix_bits \<noteq> [] \<or> map_of pointer star = None then Inl RoutingTableValidationError
          else sorted_traverse (new_dict_without_key star pointer) as)"

function rt_match_loop :: "items \<Rightarrow> string \<Rightarrow> route list \<Rightarrow> error + route list" where
  "rt_match_loop [] prefix_bits matches = Inr matches"
| "rt_match_loop ((node_bits, children) # nodes) prefix_bits matches =
     (if prefix_bits = [] then Inr matches
      else if bits_in_common node_bits prefix_bits = node_bits then
        (case children of
           Routes _ \<Rightarrow> Inl AttributeError
         | Dict c \<Rightarrow>
             (case getstar_opt c of
                Inl e \<Rightarrow> Inl e
              | Inr None \<Rightarrow>
                  rt_match_loop (popitems c) (drop (length node_bits) prefix_bits) matches
              | Inr (Some routes) \<Rightarrow>
                  rt_match_loop (popitems c) (drop (length node_bits) prefix_bits)
                    (matches @ routes)))
      else rt_match_loop nodes prefix_bits matches)"
  by pat_completeness auto
termination
  by (relation "measure (\<lambda>(nodes, _, _). size_list (size_prod (\<lambda>_. 0) size) nodes)")
     (auto intro!: le_imp_less_Suc le_SucI trans_le_add1 size_popitems)

definition IPRadixTree_match ::
  "table \<Rightarrow> network \<Rightarrow> kwargs \<Rightarrow> error + route list" where
  "IPRadixTree_match t p as =
     (case getstar (root t) [] of
        Inl e \<Rightarrow> Inl e
      | Inr routes \<Rightarrow>
          (case rt_match_loop (popitems (root t)) (bits_in_prefix p) routes of
             Inl e \<Rightarrow> Inl e
           | Inr matches \<Rightarrow> sort_routes (objs_with_all_attrs matches as)))"

text \<open>One turn of the loop \<^verbatim>\<open>while parents\<close> at the end of \<^verbatim>\<open>delete\<close>, for the entry
  \<^verbatim>\<open>[parent, parent_bits, children]\<close>. \<^verbatim>\<open>len(children)\<close> counts every key of the
  node, \<^verbatim>\<open>"*"\<close> too, and \<^verbatim>\<open>popitem\<close> takes whatever the one key is.\<close>

definition merge :: "items \<Rightarrow> string \<Rightarrow> items \<Rightarrow> items" where
  "merge parent parent_bits children =
     (if children = [] then dict_del parent parent_bits
      else if length children = 1 then
        (case last children of (child_bits, child) \<Rightarrow>
           dict_set (dict_del parent parent_bits) (parent_bits @ child_bits) child)
      else dict_set parent parent_bits (Dict children))"

text \<open>\<^verbatim>\<open>delete\<close> keeps the last two entries of \<^verbatim>\<open>parents\<close>. The model walks down by
  recursion and hands back the node after the deletion, the number of routes removed,
  and how many of the two turns of the loop are still to run above (0 when the node was
  not pruned).\<close>

definition rt_delete_end ::
  "items \<Rightarrow> string \<Rightarrow> kwargs \<Rightarrow> error + (items \<times> nat \<times> nat)" where
  "rt_delete_end pointer prefix_bits as =
     (if prefix_bits \<noteq> [] then Inl RoutingTableValidationError
      else
        (case bucket_delete pointer as of
           Inl e \<Rightarrow> Inl e
         | Inr (pointer', n, prune) \<Rightarrow>
             if prune then Inr (dict_del pointer star, n, 2) else Inr (pointer', n, 0)))"

function rt_delete_loop ::
  "items \<Rightarrow> items \<Rightarrow> string \<Rightarrow> kwargs \<Rightarrow> error + (items \<times> nat \<times> nat)" where
  "rt_delete_loop pointer [] prefix_bits as = rt_delete_end pointer prefix_bits as"
| "rt_delete_loop pointer ((node_bits, children) # nodes) prefix_bits as =
     (if prefix_bits = [] then rt_delete_end pointer prefix_bits as
      else if bits_in_common node_bits prefix_bits = node_bits then
        (case children of
           Routes _ \<Rightarrow> Inl AttributeError
         | Dict c \<Rightarrow>
             (case rt_delete_loop c (popitems c) (drop (length node_bits) prefix_bits) as of
                Inl e \<Rightarrow> Inl e
              | Inr (c', n, turns) \<Rightarrow>
                  if turns = 0 then Inr (dict_set pointer node_bits (Dict c'), n, 0)
                  else Inr (merge pointer node_bits c', n, turns - 1)))
      else rt_delete_loop pointer nodes prefix_bits as)"
  by pat_completeness auto
termination
  by (relation "measure (\<lambda>(_, nodes, _, _). size_list (size_prod (\<lambda>_. 0) size) nodes)")
     (auto intro!: le_imp_less_Suc le_SucI trans_le_add1 size_popitems)

definition IPRadixTree_delete ::
  "table \<Rightarrow> network \<Rightarrow> kwargs \<Rightarrow> error + table" where
  "IPRadixTree_delete t p as =
     (case rt_delete_loop (root t) (popitems (root t)) (bits_in_prefix p) as of
        Inl e \<Rightarrow> Inl e
      | Inr (rt, n, turns) \<Rightarrow> Inr \<lparr>root = rt, counter = counter t - int n\<rparr>)"


section \<open>flush\<close>

text \<open>\<^verbatim>\<open>flush\<close> has the same text in both classes. Without a prefix it walks the tree
  with a stack as \<^verbatim>\<open>_traverse\<close> does, removes the matching routes from each list in
  place and calls \<^verbatim>\<open>self.delete(route.prefix)\<close> on a list it has emptied, while the
  walk goes on. The stack holds references. A dictionary on the stack is read when it
  is popped; \<^verbatim>\<open>delete\<close> changes only dictionaries on the path to the list just
  emptied, which were popped before, so the model keeps the dictionary's items on the
  stack. A list on the stack is changed in place, wherever \<^verbatim>\<open>delete\<close> has moved it in
  the meantime. The model finds it by the concatenation of the keys that lead to it,
  which \<^verbatim>\<open>delete\<close> never changes (it removes keys and joins a key with the one
  below); in the trees the classes build no two keys of a node start with the same
  character, so the concatenation names one object.\<close>

fun set_list_at :: "items \<Rightarrow> string \<Rightarrow> route list \<Rightarrow> items" where
  "set_list_at [] place routes = []"
| "set_list_at ((k, v) # d) place routes =
     (if take (length k) place = k then
        (case v of
           Routes old \<Rightarrow>
             if k = place then (k, Routes routes) # d else (k, v) # set_list_at d place routes
         | Dict c \<Rightarrow> (k, Dict (set_list_at c (drop (length k) place) routes)) # d)
      else (k, v) # set_list_at d place routes)"

type_synonym stack = "(string \<times> string \<times> tree) list"

definition push :: "string \<Rightarrow> items \<Rightarrow> stack \<Rightarrow> stack" where
  "push place c nodes = rev (map (\<lambda>(k, v). (place @ k, k, v)) c) @ nodes"

definition stack_size :: "stack \<Rightarrow> nat" where
  "stack_size nodes = sum_list (map (\<lambda>(place, k, v). Suc (size v)) nodes)"

lemma stack_size_Cons: "stack_size ((place, k, v) # nodes) = Suc (size v) + stack_size nodes"
  by (simp add: stack_size_def)

lemma stack_size_push:
  "stack_size (push place c nodes) \<le> size_list (size_prod (\<lambda>_. 0) size) c + stack_size nodes"
  unfolding push_def stack_size_def
  by (induction c) (auto simp: rev_map[symmetric] sum_list_rev)

text \<open>The inner loop of \<^verbatim>\<open>flush\<close> on one list: the table after it, and the variable
  \<^verbatim>\<open>route\<close> after it. The variable lives on through the turns of the outer loop:
  after a list that was empty already it still holds the last route of an earlier
  list, or nothing at all (\<open>UnboundLocalError\<close>).\<close>

definition flush_routes :: "table \<Rightarrow> string \<Rightarrow> route list \<Rightarrow> kwargs \<Rightarrow> table" where
  "flush_routes t place routes as =
     \<lparr>root = set_list_at (root t) place (fst (remove_loop routes routes as)),
      counter = counter t - int (snd (remove_loop routes routes as))\<rparr>"

definition loop_route :: "route option \<Rightarrow> route list \<Rightarrow> route option" where
  "loop_route route routes = (if routes = [] then route else Some (last routes))"

text \<open>The first argument is the \<^verbatim>\<open>delete\<close> of the class. The result is the exception,
  if any, and the table as the call leaves it.\<close>

function flush_loop ::
  "(table \<Rightarrow> network \<Rightarrow> kwargs \<Rightarrow> error + table) \<Rightarrow>
   kwargs \<Rightarrow> stack \<Rightarrow> route option \<Rightarrow> table \<Rightarrow> error option \<times> table" where
  "flush_loop delete as [] route t = (None, t)"
| "flush_loop delete as ((place, node_bits, children) # nodes) route t =
     (if node_bits = star then
        (case children of
           Dict _ \<Rightarrow> (Some TypeError, t)
         | Routes routes \<Rightarrow>
             (if fst (remove_loop routes routes as) \<noteq> [] then
                flush_loop delete as nodes (loop_route route routes)
                  (flush_routes t place routes as)
              else
                (case loop_route route routes of
                   None \<Rightarrow> (Some UnboundLocalError, flush_routes t place routes as)
                 | Some r \<Rightarrow>
                     (case delete (flush_routes t place routes as) (prefix r) [] of
                        Inl e \<Rightarrow> (Some e, flush_routes t place routes as)
                      | Inr t' \<Rightarrow> flush_loop delete as nodes (loop_route route routes) t'))))
      else
        (case children of
           Routes _ \<Rightarrow> (Some AttributeError, t)
         | Dict c \<Rightarrow> flush_loop delete as (push place c nodes) route t))"
  by pat_completeness auto
termination
  by (relation "measure (\<lambda>(_, _, nodes, _, _). stack_size nodes)")
     (auto simp: stack_size_Cons intro!: le_imp_less_Suc le_SucI stack_size_push)

definition flush ::
  "(table \<Rightarrow> network \<Rightarrow> kwargs \<Rightarrow> error + table) \<Rightarrow>
   table \<Rightarrow> network option \<Rightarrow> kwargs \<Rightarrow> error option \<times> table" where
  "flush delete t p as =
     (case p of
        Some q \<Rightarrow> (case delete t q as of Inl e \<Rightarrow> (Some e, t) | Inr t' \<Rightarrow> (None, t'))
      | None \<Rightarrow>
          if as = [] then (None, \<lparr>root = [], counter = 0\<rparr>)
          else flush_loop delete as (push [] (root t) []) None t)"

definition IPPrefixTree_flush ::
  "table \<Rightarrow> network option \<Rightarrow> kwargs \<Rightarrow> error option \<times> table" where
  "IPPrefixTree_flush = flush IPPrefixTree_delete"

definition IPRadixTree_flush ::
  "table \<Rightarrow> network option \<Rightarrow> kwargs \<Rightarrow> error option \<times> table" where
  "IPRadixTree_flush = flush IPRadixTree_delete"

section \<open>Sequences of calls\<close>

text \<open>A caller's sequence of mutating calls. A call that raises leaves the table as it
  is at the exception, and the caller goes on.\<close>

datatype op =
  Add network kwargs
| Delete network kwargs
| Flush "network option" kwargs

definition keep :: "table \<Rightarrow> error + table \<Rightarrow> table" where
  "keep t res = (case res of Inl e \<Rightarrow> t | Inr t' \<Rightarrow> t')"

fun prefix_step :: "table \<Rightarrow> op \<Rightarrow> table" where
  "prefix_step t (Add p as) = keep t (IPPrefixTree_add t p as)"
| "prefix_step t (Delete p as) = keep t (IPPrefixTree_delete t p as)"
| "prefix_step t (Flush p as) = snd (IPPrefixTree_flush t p as)"

fun radix_step :: "table \<Rightarrow> op \<Rightarrow> table" where
  "radix_step t (Add p as) = keep t (IPRadixTree_add t p as)"
| "radix_step t (Delete p as) = keep t (IPRadixTree_delete t p as)"
| "radix_step t (Flush p as) = snd (IPRadixTree_flush t p as)"

definition prefix_run :: "op list \<Rightarrow> table" where
  "prefix_run ops = foldl prefix_step init ops"

definition radix_run :: "op list \<Rightarrow> table" where
  "radix_run ops = foldl radix_step init ops"


section \<open>The shape of the trees\<close>


text \<open>A node of a radix tree: a list under \<^verbatim>\<open>"*"\<close>, every other key a non-empty
  string of bits with a node under it, and no two keys of a node with the same first
  character, so that no two edges of a node share a common prefix.\<close>

definition is_bits :: "string \<Rightarrow> bool" where
  "is_bits k = (k \<noteq> [] \<and> set k \<subseteq> {CHR ''0'', CHR ''1''})"

fun radix_node :: "tree \<Rightarrow> bool" where
  "radix_node (Routes _) = False"
| "radix_node (Dict d) =
     (distinct (map (\<lambda>(k, v). hd k) d) \<and>
      list_all (\<lambda>(k, v). if k = star then (case v of Routes _ \<Rightarrow> True | Dict _ \<Rightarrow> False)
                          else is_bits k \<and> radix_node v) d)"

text \<open>The canonical form of the radix tree: every node but the root holds a list of
  routes or has at least two children.\<close>

fun canonical :: "bool \<Rightarrow> tree \<Rightarrow> bool" where
  "canonical is_root (Routes _) = True"
| "canonical is_root (Dict d) =
     ((is_root \<or> map_of d star \<noteq> None \<or> 2 \<le> length d) \<and>
      list_all (\<lambda>(k, v). canonical False v) d)"

definition radix_canonical :: "table \<Rightarrow> bool" where
  "radix_canonical t = (radix_node (Dict (root t)) \<and> canonical True (Dict (root t)))"

section \<open>Evaluating the model on concrete calls\<close>

definition digit :: "nat \<Rightarrow> char" where
  "digit k = (if k mod 2 = 1 then CHR ''1'' else CHR ''0'')"

lemma format_b_map: "format_b w n = map (\<lambda>i. digit (n div 2 ^ (w - 1 - i))) [0..<w]"
proof (induction w)
  case 0
  show ?case by simp
next
  case (Suc w)
  have "map (\<lambda>i. digit (n div 2 ^ (Suc w - 1 - i))) [0..<Suc w]
        = digit (n div 2 ^ w) # map (\<lambda>i. digit (n div 2 ^ (w - 1 - i))) [0..<w]"
    by (simp add: upt_conv_Cons map_Suc_upt[symmetric] del: upt_Suc)
  then show ?case using Suc by (simp add: digit_def)
qed

lemma bits_in_prefix_map:
  "prefixlen p \<le> max_prefixlen (version p) \<Longrightarrow>
   bits_in_prefix p =
     map (\<lambda>i. digit (network_address p div 2 ^ (max_prefixlen (version p) - 1 - i)))
       [0..<prefixlen p]"
  by (simp add: bits_in_prefix_def format_b_map take_map min_def)

text \<open>\<^verbatim>\<open>10.0.0.0/8\<close>, \<^verbatim>\<open>10.1.0.0/16\<close>, \<^verbatim>\<open>0.0.0.0/0\<close>, \<^verbatim>\<open>8.0.0.0/6\<close>, \<^verbatim>\<open>128.0.0.0/1\<close>,
  \<^verbatim>\<open>0.0.0.0/2\<close>, \<^verbatim>\<open>64.0.0.0/2\<close>, \<^verbatim>\<open>::/128\<close> and \<^verbatim>\<open>::/0\<close>.\<close>

definition net_10_8 :: network where
  "net_10_8 = \<lparr>version = V4, network_address = 167772160, prefixlen = 8\<rparr>"

definition net_10_1_16 :: network where
  "net_10_1_16 = \<lparr>version = V4, network_address = 167837696, prefixlen = 16\<rparr>"

definition net_0_0 :: network where
  "net_0_0 = \<lparr>version = V4, network_address = 0, prefixlen = 0\<rparr>"

definition net_8_6 :: network where
  "net_8_6 = \<lparr>version = V4, network_address = 134217728, prefixlen = 6\<rparr>"

definition net6_0_128 :: network where
  "net6_0_128 = \<lparr>version = V6, network_address = 0, prefixlen = 128\<rparr>"

definition net_128_1 :: network where
  "net_128_1 = \<lparr>version = V4, network_address = 2147483648, prefixlen = 1\<rparr>"

definition net_0_2 :: network where
  "net_0_2 = \<lparr>version = V4, network_address = 0, prefixlen = 2\<rparr>"

definition net_64_2 :: network where
  "net_64_2 = \<lparr>version = V4, network_address = 1073741824, prefixlen = 2\<rparr>"

definition net6_0_0 :: network where
  "net6_0_0 = \<lparr>version = V6, network_address = 0, prefixlen = 0\<rparr>"

lemma bits_net_10_8: "bits_in_prefix net_10_8 = ''00001010''"
  by (simp add: bits_in_prefix_map net_10_8_def digit_def upt_rec)

lemma bits_net_10_1_16: "bits_in_prefix net_10_1_16 = ''0000101000000001''"
  by (simp add: bits_in_prefix_map net_10_1_16_def digit_def upt_rec)

lemma bits_net_0_0: "bits_in_prefix net_0_0 = []"
  by (simp add: bits_in_prefix_def net_0_0_def)

lemma bits_net_8_6: "bits_in_prefix net_8_6 = ''000010''"
  by (simp add: bits_in_prefix_map net_8_6_def digit_def upt_rec)

lemma bits_net_128_1: "bits_in_prefix net_128_1 = ''1''"
  by (simp add: bits_in_prefix_map net_128_1_def digit_def upt_rec)

lemma bits_net_0_2: "bits_in_prefix net_0_2 = ''00''"
  by (simp add: bits_in_prefix_map net_0_2_def digit_def upt_rec)

lemma bits_net_64_2: "bits_in_prefix net_64_2 = ''01''"
  by (simp add: bits_in_prefix_map net_64_2_def digit_def upt_rec)

lemma bits_net6_0_0: "bits_in_prefix net6_0_0 = []"
  by (simp add: bits_in_prefix_def net6_0_0_def)

lemma bits_net6_0_128: "bits_in_prefix net6_0_128 = replicate 128 CHR ''0''"
  by (simp add: bits_in_prefix_map net6_0_128_def digit_def map_replicate_const)

lemmas bits_simps = bits_net_10_8 bits_net_10_1_16 bits_net_0_0 bits_net_8_6 bits_net6_0_0
  bits_net_128_1 bits_net_0_2 bits_net_64_2

lemmas eval_defs =
  IPRadixTree_add_def IPRadixTree_get_def IPRadixTree_delete_def IPRadixTree_show_def
  IPPrefixTree_add_def IPPrefixTree_get_def IPPrefixTree_delete_def IPPrefixTree_show_def
  IPPrefixTree_flush_def IPRadixTree_flush_def flush_def flush_routes_def loop_route_def push_def
  prefix_run_def radix_run_def keep_def
  init_def popitems_def new_dict_without_key_def dict_del_def rt_add_end_def bucket_add_def
  bucket_delete_def rt_delete_end_def merge_def getstar_def route_in_def route_eq_def dict_eq_def
  objs_with_all_attrs_def has_all_attrs_def sorted_traverse_def traverse_def sort_routes_def
  sort_key_of_def

lemmas net_defs = net_10_8_def net_10_1_16_def net_0_0_def net_8_6_def net6_0_128_def net6_0_0_def
  net_128_1_def net_0_2_def net_64_2_def

lemmas bits_unfolded =
  bits_net_10_8[unfolded net_10_8_def] bits_net_10_1_16[unfolded net_10_1_16_def]
  bits_net_0_0[unfolded net_0_0_def] bits_net_8_6[unfolded net_8_6_def]
  bits_net6_0_0[unfolded net6_0_0_def]

text \<open>A table after one \<^verbatim>\<open>add\<close>: the prefix tree is one branch, the radix tree one edge.\<close>

fun branch :: "string \<Rightarrow> route \<Rightarrow> items" where
  "branch [] r = [(star, Routes [r])]"
| "branch (b # bits) r = [([b], Dict (branch bits r))]"

lemma pt_add_loop_empty: "pt_add_loop [] bits r = Inr (branch bits r, True)"
  by (induction bits) (simp_all add: bucket_add_def)

lemma traverse_branch:
  "CHR ''*'' \<notin> set bits \<Longrightarrow>
   traverse_loop (rev (branch bits r)) as = Inr (objs_with_all_attrs [r] as)"
  by (induction bits) auto

lemma bits_in_prefix_chars: "set (bits_in_prefix p) \<subseteq> {CHR ''0'', CHR ''1''}"
proof -
  have "set (format_b w n) \<subseteq> {CHR ''0'', CHR ''1''}" for w n
    by (induction w) auto
  then show ?thesis
    unfolding bits_in_prefix_def using set_take_subset by fast
qed

lemma star_notin_bits: "CHR ''*'' \<notin> set (bits_in_prefix p)"
  using bits_in_prefix_chars[of p] by auto

lemma prefix_run_one:
  "prefix_run [Add p as] = \<lparr>root = branch (bits_in_prefix p) \<lparr>prefix = p, attrs = as\<rparr>, counter = 1\<rparr>"
  by (simp add: prefix_run_def IPPrefixTree_add_def pt_add_loop_empty keep_def init_def)

lemma radix_run_one:
  "radix_run [Add p as] =
     \<lparr>root = (if bits_in_prefix p = [] then [(star, Routes [\<lparr>prefix = p, attrs = as\<rparr>])]
              else [(bits_in_prefix p, Dict [(star, Routes [\<lparr>prefix = p, attrs = as\<rparr>])])]),
      counter = 1\<rparr>"
  by (simp add: radix_run_def IPRadixTree_add_def keep_def init_def popitems_def
      new_dict_without_key_def rt_add_end_def bucket_add_def)

section \<open>The claims settled by evaluation\<close>

text \<open>C1. The two classes do not answer alike after every sequence of calls. After
  \<^verbatim>\<open>add("10.0.0.0/8")\<close>, \<^verbatim>\<open>add("10.1.0.0/16")\<close>, \<^verbatim>\<open>delete("10.1.0.0/16")\<close> the prefix
  tree still answers \<^verbatim>\<open>get("10.0.0.0/8")\<close> and \<^verbatim>\<open>show()\<close> with the route of
  \<^verbatim>\<open>10.0.0.0/8\<close>; the radix tree answers \<^verbatim>\<open>get\<close> with the empty list and raises
  \<open>AttributeError\<close> in \<^verbatim>\<open>show\<close>.\<close>

theorem radix_and_prefix_tree_differ:
  "IPPrefixTree_get (prefix_run [Add net_10_8 [], Add net_10_1_16 [], Delete net_10_1_16 []])
     net_10_8 [] = Inr [\<lparr>prefix = net_10_8, attrs = []\<rparr>] \<and>
   IPRadixTree_get (radix_run [Add net_10_8 [], Add net_10_1_16 [], Delete net_10_1_16 []])
     net_10_8 [] = Inr [] \<and>
   IPPrefixTree_show (prefix_run [Add net_10_8 [], Add net_10_1_16 [], Delete net_10_1_16 []])
     None False [] = Inr [\<lparr>prefix = net_10_8, attrs = []\<rparr>] \<and>
   IPRadixTree_show (radix_run [Add net_10_8 [], Add net_10_1_16 [], Delete net_10_1_16 []])
     None False [] = Inl AttributeError"
  by (simp add: eval_defs bits_simps)

text \<open>C2. The radix tree is not canonical after every sequence of calls. After
  \<^verbatim>\<open>add("10.0.0.0/8")\<close>, \<^verbatim>\<open>add("10.1.0.0/16")\<close> the node of \<^verbatim>\<open>10.0.0.0/8\<close> holds its
  list of routes and one child. \<^verbatim>\<open>delete("10.1.0.0/16")\<close> removes the child, and its
  second turn of the loop over \<^verbatim>\<open>parents\<close> finds \<^verbatim>\<open>len(children) == 1\<close> for the node of
  \<^verbatim>\<open>10.0.0.0/8\<close>, whose one key is \<^verbatim>\<open>"*"\<close>: it splices the node out and hangs the
  list of routes under the root with the key \<^verbatim>\<open>"00001010*"\<close>.\<close>

theorem radix_delete_splices_out_a_node_with_routes:
  "radix_run [Add net_10_8 [], Add net_10_1_16 []] =
     \<lparr>root = [(''00001010'',
                Dict [(star, Routes [\<lparr>prefix = net_10_8, attrs = []\<rparr>]),
                      (''00000001'', Dict [(star, Routes [\<lparr>prefix = net_10_1_16, attrs = []\<rparr>])])])],
      counter = 2\<rparr> \<and>
   radix_canonical (radix_run [Add net_10_8 [], Add net_10_1_16 []]) \<and>
   radix_run [Add net_10_8 [], Add net_10_1_16 [], Delete net_10_1_16 []] =
     \<lparr>root = [(''00001010*'', Routes [\<lparr>prefix = net_10_8, attrs = []\<rparr>])], counter = 1\<rparr> \<and>
   \<not> radix_canonical (radix_run [Add net_10_8 [], Add net_10_1_16 [], Delete net_10_1_16 []])"
  by (simp add: eval_defs bits_simps radix_canonical_def is_bits_def)

text \<open>C4. \<^verbatim>\<open>delete\<close> of the radix tree does not leave the routes of every other prefix
  retrievable: in the table of \<^verbatim>\<open>10.0.0.0/8\<close> and \<^verbatim>\<open>10.1.0.0/16\<close>, \<^verbatim>\<open>get("10.0.0.0/8")\<close>
  returns its route before \<^verbatim>\<open>delete("10.1.0.0/16")\<close> and the empty list after it.\<close>

theorem radix_delete_loses_the_parent_route:
  "IPRadixTree_get (radix_run [Add net_10_8 [], Add net_10_1_16 []]) net_10_8 [] =
     Inr [\<lparr>prefix = net_10_8, attrs = []\<rparr>] \<and>
   IPRadixTree_delete (radix_run [Add net_10_8 [], Add net_10_1_16 []]) net_10_1_16 [] =
     Inr \<lparr>root = [(''00001010*'', Routes [\<lparr>prefix = net_10_8, attrs = []\<rparr>])], counter = 1\<rparr> \<and>
   IPRadixTree_get
     \<lparr>root = [(''00001010*'', Routes [\<lparr>prefix = net_10_8, attrs = []\<rparr>])], counter = 1\<rparr>
     net_10_8 [] = Inr [] \<and>
   IPRadixTree_match
     \<lparr>root = [(''00001010*'', Routes [\<lparr>prefix = net_10_8, attrs = []\<rparr>])], counter = 1\<rparr>
     net_10_8 [] = Inr []"
  by (simp add: eval_defs bits_simps IPRadixTree_match_def)

text \<open>C5. \<^verbatim>\<open>show\<close> of the radix tree with a prefix that is not in the table does not
  always return the empty list: in the table of \<^verbatim>\<open>128.0.0.0/1\<close> and \<^verbatim>\<open>0.0.0.0/2\<close>,
  \<^verbatim>\<open>show("64.0.0.0/2")\<close> returns the route of \<^verbatim>\<open>128.0.0.0/1\<close>. Its walk drops the
  bit \<^verbatim>\<open>0\<close> that the prefix shares with the key \<^verbatim>\<open>"00"\<close> and goes on to match the
  rest, \<^verbatim>\<open>"1"\<close>, with the next key. The prefix tree returns the empty list.\<close>

theorem radix_show_of_a_missing_prefix_is_not_empty:
  "IPRadixTree_show (radix_run [Add net_128_1 [], Add net_0_2 []]) (Some net_64_2) False [] =
     Inr [\<lparr>prefix = net_128_1, attrs = []\<rparr>] \<and>
   IPPrefixTree_show (prefix_run [Add net_128_1 [], Add net_0_2 []]) (Some net_64_2) False [] =
     Inr []"
  by (simp add: eval_defs bits_simps)

text \<open>C6. \<^verbatim>\<open>show(prefix)\<close> of the radix tree does not return the list of routes of
  exactly that prefix when the prefix ends inside an edge: in the table of
  \<^verbatim>\<open>0.0.0.0/0\<close> and \<^verbatim>\<open>10.0.0.0/8\<close>, \<^verbatim>\<open>show("8.0.0.0/6")\<close> returns the route of
  \<^verbatim>\<open>0.0.0.0/0\<close>, and with \<^verbatim>\<open>as_root=True\<close> the whole table, where the prefix tree
  returns the empty list and the route of \<^verbatim>\<open>10.0.0.0/8\<close>.\<close>

theorem radix_show_inside_an_edge:
  "IPRadixTree_show (radix_run [Add net_0_0 [], Add net_10_8 []]) (Some net_8_6) False [] =
     Inr [\<lparr>prefix = net_0_0, attrs = []\<rparr>] \<and>
   IPPrefixTree_show (prefix_run [Add net_0_0 [], Add net_10_8 []]) (Some net_8_6) False [] =
     Inr [] \<and>
   IPRadixTree_show (radix_run [Add net_0_0 [], Add net_10_8 []]) (Some net_8_6) True [] =
     Inr [\<lparr>prefix = net_0_0, attrs = []\<rparr>, \<lparr>prefix = net_10_8, attrs = []\<rparr>] \<and>
   IPPrefixTree_show (prefix_run [Add net_0_0 [], Add net_10_8 []]) (Some net_8_6) True [] =
     Inr [\<lparr>prefix = net_10_8, attrs = []\<rparr>]"
  by (simp add: eval_defs bits_unfolded net_defs)

text \<open>C9. \<^verbatim>\<open>flush\<close> of the radix tree with attributes only does not leave every other
  route retrievable: in the table of \<^verbatim>\<open>10.0.0.0/8\<close> and \<^verbatim>\<open>10.1.0.0/16 via=A\<close>,
  \<^verbatim>\<open>flush(via="A")\<close> empties the list of \<^verbatim>\<open>10.1.0.0/16\<close> and calls \<^verbatim>\<open>delete\<close> for
  it, which splices out the node of \<^verbatim>\<open>10.0.0.0/8\<close>; \<^verbatim>\<open>get("10.0.0.0/8")\<close> then returns
  the empty list. The prefix tree keeps the route.\<close>

theorem radix_flush_loses_a_route:
  "IPRadixTree_flush (radix_run [Add net_10_8 [], Add net_10_1_16 [(via, ''A'')]])
     None [(via, ''A'')] =
     (None, \<lparr>root = [(''00001010*'', Routes [\<lparr>prefix = net_10_8, attrs = []\<rparr>])], counter = 1\<rparr>) \<and>
   IPRadixTree_get
     \<lparr>root = [(''00001010*'', Routes [\<lparr>prefix = net_10_8, attrs = []\<rparr>])], counter = 1\<rparr>
     net_10_8 [] = Inr [] \<and>
   IPPrefixTree_get
     (snd (IPPrefixTree_flush (prefix_run [Add net_10_8 [], Add net_10_1_16 [(via, ''A'')]])
        None [(via, ''A'')]))
     net_10_8 [] = Inr [\<lparr>prefix = net_10_8, attrs = []\<rparr>]"
  by (simp add: eval_defs bits_simps)

text \<open>\<^verbatim>\<open>::/2\<close>.\<close>

definition net6_0_2 :: network where
  "net6_0_2 = \<lparr>version = V6, network_address = 0, prefixlen = 2\<rparr>"

lemma bits_net6_0_2: "bits_in_prefix net6_0_2 = ''00''"
  by (simp add: bits_in_prefix_map net6_0_2_def digit_def upt_rec)


text \<open>C8. The lists are not sorted when the table holds routes of both families: no list
  is returned. After \<^verbatim>\<open>add("0.0.0.0/0")\<close>, \<^verbatim>\<open>add("0.0.0.0/2")\<close>, \<^verbatim>\<open>add("::/2")\<close>, on
  either tree, \<^verbatim>\<open>show()\<close>, \<^verbatim>\<open>show("0.0.0.0/0", as_root=True)\<close>,
  \<^verbatim>\<open>children("0.0.0.0/0")\<close>, \<^verbatim>\<open>match("0.0.0.0/2")\<close> and \<^verbatim>\<open>wcmatch("0.0.0.0", "0.0.0.0")\<close>
  all raise \<open>TypeError\<close>, from the comparison of an IPv4 with an IPv6 network in
  \<^verbatim>\<open>sorted\<close>, where the claim has the routes in the order of (version, network
  address, prefix length).\<close>

theorem listings_of_both_families_raise:
  "IPPrefixTree_show (prefix_run [Add net_0_0 [], Add net_0_2 [], Add net6_0_2 []]) None False [] =
     Inl TypeError \<and>
   IPPrefixTree_show (prefix_run [Add net_0_0 [], Add net_0_2 [], Add net6_0_2 []])
     (Some net_0_0) True [] = Inl TypeError \<and>
   IPPrefixTree_children (prefix_run [Add net_0_0 [], Add net_0_2 [], Add net6_0_2 []]) net_0_0 [] =
     Inl TypeError \<and>
   IPPrefixTree_match (prefix_run [Add net_0_0 [], Add net_0_2 [], Add net6_0_2 []]) net_0_2 [] =
     Inl TypeError \<and>
   wcmatch (prefix_run [Add net_0_0 [], Add net_0_2 [], Add net6_0_2 []]) 0 0 [] = Inl TypeError \<and>
   IPRadixTree_show (radix_run [Add net_0_0 [], Add net_0_2 [], Add net6_0_2 []]) None False [] =
     Inl TypeError \<and>
   IPRadixTree_show (radix_run [Add net_0_0 [], Add net_0_2 [], Add net6_0_2 []])
     (Some net_0_0) True [] = Inl TypeError \<and>
   IPRadixTree_children (radix_run [Add net_0_0 [], Add net_0_2 [], Add net6_0_2 []]) net_0_0 [] =
     Inl TypeError \<and>
   IPRadixTree_match (radix_run [Add net_0_0 [], Add net_0_2 [], Add net6_0_2 []]) net_0_2 [] =
     Inl TypeError \<and>
   wcmatch (radix_run [Add net_0_0 [], Add net_0_2 [], Add net6_0_2 []]) 0 0 [] = Inl TypeError"
  by (simp add: eval_defs bits_net6_0_2[unfolded net6_0_2_def] bits_unfolded
      bits_net_0_2[unfolded net_0_2_def] net_defs net6_0_2_def
      IPPrefixTree_children_def IPRadixTree_children_def IPPrefixTree_match_def
      IPRadixTree_match_def getstar_opt_def wcmatch_def wc_test_def int_wildcard_boundaries_def
      int_prefix_boundaries_def broadcast_address_def)

text \<open>In particular \<^verbatim>\<open>children\<close> of the radix tree finds the node of \<^verbatim>\<open>0.0.0.0/0\<close> with
  its list of routes, and fails in the sort of the routes below it.\<close>

theorem listings_of_both_families_raise_witness:
  "IPRadixTree_children (radix_run [Add net_0_0 [], Add net_0_2 [], Add net6_0_2 []]) net_0_0 [] =
     Inl TypeError"
  using listings_of_both_families_raise by blast


section \<open>The wildcard match\<close>

text \<open>\<^verbatim>\<open>_sort\<close> fails exactly when the routes to sort are of both families.\<close>

definition one_family :: "route list \<Rightarrow> bool" where
  "one_family rs = (\<forall>r \<in> set rs. \<forall>s \<in> set rs. version (prefix r) = version (prefix s))"

lemma one_family_Cons:
  "one_family (r # rs) \<longleftrightarrow> (\<forall>s \<in> set rs. version (prefix s) = version (prefix r))"
proof
  assume a: "one_family (r # rs)"
  show "\<forall>s \<in> set rs. version (prefix s) = version (prefix r)"
  proof
    fix s
    assume "s \<in> set rs"
    then have "s \<in> set (r # rs)" "r \<in> set (r # rs)" by simp_all
    with a show "version (prefix s) = version (prefix r)"
      unfolding one_family_def by blast
  qed
next
  assume h: "\<forall>s \<in> set rs. version (prefix s) = version (prefix r)"
  show "one_family (r # rs)"
    unfolding one_family_def
  proof (intro ballI)
    fix a b
    assume "a \<in> set (r # rs)" "b \<in> set (r # rs)"
    then have "a = r \<or> a \<in> set rs" "b = r \<or> b \<in> set rs" by simp_all
    with h have va: "version (prefix a) = version (prefix r)"
      and vb: "version (prefix b) = version (prefix r)"
      by blast+
    from va vb[symmetric] show "version (prefix a) = version (prefix b)" by (rule trans)
  qed
qed

lemma mixed_versions_iff: "mixed_versions rs \<longleftrightarrow> \<not> one_family rs"
proof (cases rs)
  case Nil
  then show ?thesis by (simp add: one_family_def)
next
  case (Cons r rs')
  have "mixed_versions (r # rs') \<longleftrightarrow> (\<exists>s \<in> set rs'. version (prefix s) \<noteq> version (prefix r))"
    by (simp add: list_ex_iff)
  then show ?thesis unfolding Cons one_family_Cons by blast
qed

text \<open>The test of \<^verbatim>\<open>wcmatch\<close> on the integers of a route and of the range. No address
  family stands in it.\<close>

definition in_wildcard_range :: "nat \<Rightarrow> nat \<Rightarrow> route \<Rightarrow> bool" where
  "in_wildcard_range address wildcard r =
     ((network_address (prefix r) AND (address OR wildcard)) = network_address (prefix r) \<and>
      (address AND broadcast_address (prefix r)) = address)"

lemma wc_test_range:
  "wc_test (int_wildcard_boundaries address wildcard) r = in_wildcard_range address wildcard r"
  by (simp add: wc_test_def int_wildcard_boundaries_def int_prefix_boundaries_def
      in_wildcard_range_def)

lemma the_one_route_in_range:
  assumes res: "case res of
           Inr out \<Rightarrow> set out = {r \<in> set routes. P r} \<and> length out = length (filter P routes)
         | Inl e \<Rightarrow>
             e = TypeError \<and>
             (\<exists>r \<in> set routes. \<exists>s \<in> set routes.
                P r \<and> P s \<and> version (prefix r) \<noteq> version (prefix s))"
    and one: "filter P routes = [x]"
  shows "res = Inr [x]"
proof (cases res)
  case (Inl e)
  with res obtain r s where rs: "r \<in> set routes" "s \<in> set routes" "P r" "P s"
    and v: "version (prefix r) \<noteq> version (prefix s)" by auto
  from rs have "r \<in> set (filter P routes)" "s \<in> set (filter P routes)" by simp_all
  then have "r = x" "s = x" unfolding one by simp_all
  with v show ?thesis by simp
next
  case (Inr out)
  with res have "set out = set (filter P routes)" and "length out = length (filter P routes)"
    by simp_all
  then have "set out = {x}" "length out = Suc 0" unfolding one by simp_all
  then have "out = [x]" by (cases out) auto
  with Inr show ?thesis by simp
qed

text \<open>C10. \<^verbatim>\<open>wcmatch\<close> applies its test on the integers to every route of the table,
  whatever the family of the route and of the address given. Let \<open>routes\<close> be the
  routes of the table with the attributes asked for, as the traversal of the table
  yields them. When \<^verbatim>\<open>wcmatch\<close> returns a list, it holds exactly the routes that
  pass the test, each as often as the table has it. It returns no list only when two
  routes of different families pass the test: \<^verbatim>\<open>_sort\<close> then raises \<open>TypeError\<close>.\<close>

theorem wcmatch_tests_every_route_whatever_its_family:
  assumes "traverse (root t) as = Inr routes"
  shows "case wcmatch t address wildcard as of
           Inr out \<Rightarrow>
             set out = {r \<in> set routes. in_wildcard_range address wildcard r} \<and>
             length out = length (filter (in_wildcard_range address wildcard) routes)
         | Inl e \<Rightarrow>
             e = TypeError \<and>
             (\<exists>r \<in> set routes. \<exists>s \<in> set routes.
                in_wildcard_range address wildcard r \<and> in_wildcard_range address wildcard s \<and>
                version (prefix r) \<noteq> version (prefix s))"
proof -
  let ?m = "filter (in_wildcard_range address wildcard) routes"
  have w: "wcmatch t address wildcard as = sort_routes ?m"
    using assms by (simp add: wcmatch_def wc_test_range[abs_def])
  show ?thesis
  proof (cases "mixed_versions ?m")
    case True
    then have "\<not> one_family ?m" using mixed_versions_iff by blast
    then have "\<exists>r \<in> set routes. \<exists>s \<in> set routes.
        in_wildcard_range address wildcard r \<and> in_wildcard_range address wildcard s \<and>
        version (prefix r) \<noteq> version (prefix s)"
      unfolding one_family_def by auto
    with True show ?thesis unfolding w by (simp add: sort_routes_def)
  next
    case False
    then show ?thesis unfolding w by (simp add: sort_routes_def)
  qed
qed

text \<open>So on either tree holding exactly \<^verbatim>\<open>::/128\<close>, \<^verbatim>\<open>wcmatch("0.0.0.0", "0.0.3.255")\<close>
  returns that route; and in the table of \<^verbatim>\<open>::/0\<close> and \<^verbatim>\<open>128.0.0.0/1\<close>,
  \<^verbatim>\<open>wcmatch("10.0.0.0", "0.255.255.255")\<close> returns the IPv6 route and not the IPv4
  one.\<close>

theorem wcmatch_tests_every_route_whatever_its_family_witness:
  "wcmatch (prefix_run [Add net6_0_128 []]) 0 1023 [] = Inr [\<lparr>prefix = net6_0_128, attrs = []\<rparr>] \<and>
   wcmatch (radix_run [Add net6_0_128 []]) 0 1023 [] = Inr [\<lparr>prefix = net6_0_128, attrs = []\<rparr>] \<and>
   traverse (root (radix_run [Add net6_0_0 [], Add net_128_1 []])) [] =
     Inr [\<lparr>prefix = net_128_1, attrs = []\<rparr>, \<lparr>prefix = net6_0_0, attrs = []\<rparr>] \<and>
   wcmatch (radix_run [Add net6_0_0 [], Add net_128_1 []]) 167772160 16777215 [] =
     Inr [\<lparr>prefix = net6_0_0, attrs = []\<rparr>]"
proof -
  let ?r = "\<lparr>prefix = net6_0_128, attrs = []\<rparr>"
  have in128: "in_wildcard_range 0 1023 ?r"
    by (simp add: in_wildcard_range_def broadcast_address_def net6_0_128_def)
  have t1: "traverse (root (prefix_run [Add net6_0_128 []])) [] = Inr [?r]"
    using star_notin_bits[of net6_0_128]
    by (simp add: prefix_run_one traverse_def traverse_branch objs_with_all_attrs_def
        has_all_attrs_def)
  have ns: "bits_in_prefix net6_0_128 \<noteq> star"
    using star_notin_bits[of net6_0_128] by auto
  have ne: "bits_in_prefix net6_0_128 \<noteq> []"
    by (simp add: bits_net6_0_128)
  have t2: "traverse (root (radix_run [Add net6_0_128 []])) [] = Inr [?r]"
    using ns ne by (simp add: radix_run_one traverse_def objs_with_all_attrs_def has_all_attrs_def)
  have t3: "traverse (root (radix_run [Add net6_0_0 [], Add net_128_1 []])) [] =
     Inr [\<lparr>prefix = net_128_1, attrs = []\<rparr>, \<lparr>prefix = net6_0_0, attrs = []\<rparr>]"
    by (simp add: eval_defs bits_simps)
  have in0: "in_wildcard_range 167772160 16777215 \<lparr>prefix = net6_0_0, attrs = []\<rparr>"
    by (simp add: in_wildcard_range_def broadcast_address_def net6_0_0_def)
  have out128: "\<not> in_wildcard_range 167772160 16777215 \<lparr>prefix = net_128_1, attrs = []\<rparr>"
    by (simp add: in_wildcard_range_def broadcast_address_def net_128_1_def)
  have w1: "wcmatch (prefix_run [Add net6_0_128 []]) 0 1023 [] = Inr [?r]"
    using wcmatch_tests_every_route_whatever_its_family[OF t1, of 0 1023]
    by (rule the_one_route_in_range) (simp add: in128)
  have w2: "wcmatch (radix_run [Add net6_0_128 []]) 0 1023 [] = Inr [?r]"
    using wcmatch_tests_every_route_whatever_its_family[OF t2, of 0 1023]
    by (rule the_one_route_in_range) (simp add: in128)
  have w3: "wcmatch (radix_run [Add net6_0_0 [], Add net_128_1 []]) 167772160 16777215 [] =
      Inr [\<lparr>prefix = net6_0_0, attrs = []\<rparr>]"
    using wcmatch_tests_every_route_whatever_its_family[OF t3, of 167772160 16777215]
    by (rule the_one_route_in_range) (simp add: in0 out128)
  from w1 w2 t3 w3 show ?thesis by blast
qed


section \<open>Dictionaries and lists of routes\<close>






lemma dict_set_new: "map_of d k = None \<Longrightarrow> dict_set d k v = d @ [(k, v)]"
  by (induction d) (auto split: if_splits)








section \<open>The routes a tree stores\<close>

text \<open>The lists of routes of a tree, each with the concatenation of the keys that lead
  to it: the bit-string of the prefix it is stored for.\<close>

fun stored_items :: "items \<Rightarrow> (string \<times> route list) list" where
  "stored_items [] = []"
| "stored_items ((k, Routes rs) # d) = (if k = star then [([], rs)] else []) @ stored_items d"
| "stored_items ((k, Dict c) # d) =
     (if k = star then [] else map (\<lambda>(q, rs). (k @ q, rs)) (stored_items c)) @ stored_items d"





declare radix_node.simps(2) [simp del]














section \<open>The walk of the radix tree\<close>








lemma common_full_iff: "bits_in_common k b = k \<longleftrightarrow> take (length k) b = k"
  by (induction k b rule: bits_in_common.induct) auto



lemma common_length_le: "length (bits_in_common k b) \<le> length k"
  by (induction k b rule: bits_in_common.induct) auto







section \<open>What add does to the stored routes\<close>






















lemma stored_leaf: "set (stored_items [(star, Routes [r])]) = {([], [r])}"
  by simp





































end
